theory Spec2Isabelle
  imports Complex_Main "HOL-Library.Word" "HOL-Library.Multiset"
begin

section \<open>Strings\<close>

text \<open>
  A JavaScript string is modelled as a \<open>string\<close>: ASCII characters are themselves and a
  character beyond ASCII is the bytes of its UTF-8 encoding. Emptiness, concatenation and the
  search for an ASCII substring agree with JavaScript under this encoding.
\<close>

definition digitChar :: "nat \<Rightarrow> char" where
  "digitChar d = char_of (48 + d)"

text \<open>The decimal rendering of a non-negative integer in a template literal.\<close>

function showNat :: "nat \<Rightarrow> string" where
  "showNat n = (if n < 10 then [digitChar n] else showNat (n div 10) @ [digitChar (n mod 10)])"
  by pat_completeness auto
termination
  by (relation "measure id") auto




section \<open>Data model\<close>

text \<open>
  \<open>AudioBuffer\<close>: the Web Audio buffer that \<open>decodeAudioData\<close> fills. A sample is stored in a
  32-bit float; every value the decoder writes is \<open>k / 2^15\<close> with \<open>|k| \<le> 2^15\<close>, which a
  32-bit float holds exactly, so samples are modelled as rationals.
\<close>

record AudioBuffer =
  sampleRate :: nat
  numberOfChannels :: nat
  frameCount :: nat
  channelData :: "rat list list"

text \<open>
  Modelled from the spec: the declaration of \<open>Slide\<close> (types.ts) is not among the sources;
  the fields are those of the spec's data model, which are the ones the code reads and writes.
  A narration record of the analysis response has the first three fields; the image and the
  audio buffer are attached later. The field \<open>notes\<close> is \<open>slide_notes\<close> here.
\<close>

record Slide =
  pageIndex :: int
  title :: string
  slide_notes :: string
  imageUrl :: "string option"
  audioBuffer :: "AudioBuffer option"

section \<open>Content synchronisation in \<open>startAnalysis\<close>\<close>

definition pageLabel :: string where
  "pageLabel = [CHR 0xE3, CHR 0x83, CHR 0x9A, CHR 0xE3, CHR 0x83, CHR 0xBC, CHR 0xE3, CHR 0x82,
     CHR 0xB8, CHR 0x20]"

definition notesPlaceholder :: string where
  "notesPlaceholder = [CHR 0xE3, CHR 0x81, CHR 0x93, CHR 0xE3, CHR 0x81, CHR 0xAE, CHR 0xE3,
     CHR 0x83, CHR 0x9A, CHR 0xE3, CHR 0x83, CHR 0xBC, CHR 0xE3, CHR 0x82, CHR 0xB8, CHR 0xE3,
     CHR 0x81, CHR 0xAE, CHR 0xE8, CHR 0xA7, CHR 0xA3, CHR 0xE8, CHR 0xAA, CHR 0xAC, CHR 0xE3,
     CHR 0x82, CHR 0x92, CHR 0xE7, CHR 0x94, CHR 0x9F, CHR 0xE6, CHR 0x88, CHR 0x90, CHR 0xE3,
     CHR 0x81, CHR 0xA7, CHR 0xE3, CHR 0x81, CHR 0x8D, CHR 0xE3, CHR 0x81, CHR 0xBE, CHR 0xE3,
     CHR 0x81, CHR 0x9B, CHR 0xE3, CHR 0x82, CHR 0x93, CHR 0xE3, CHR 0x81, CHR 0xA7, CHR 0xE3,
     CHR 0x81, CHR 0x97, CHR 0xE3, CHR 0x81, CHR 0x9F, CHR 0xE3, CHR 0x80, CHR 0x82]"

text \<open>\<open>a || b\<close> on strings: the empty string is falsy.\<close>

definition orElse :: "string \<Rightarrow> string \<Rightarrow> string" where
  "orElse a b = (if a = [] then b else a)"

text \<open>\<open>images[i]\<close>: \<open>undefined\<close> out of range.\<close>

definition imageAt :: "string list \<Rightarrow> nat \<Rightarrow> string option" where
  "imageAt images i = (if i < length images then Some (images ! i) else None)"

text \<open>
  The PDF-only application (src/unnamed/part\_000, lines 99 to 108): one slide per extracted
  page \<open>i\<close>, from the first narration record whose \<open>pageIndex\<close> is \<open>i\<close>.
\<close>

definition syncSlide0 :: "Slide list \<Rightarrow> string list \<Rightarrow> nat \<Rightarrow> Slide" where
  "syncSlide0 ai images i =
     (let aiSlide = find (\<lambda>s. pageIndex s = int i) ai in
      \<lparr> pageIndex = int i,
        title = orElse (case aiSlide of None \<Rightarrow> [] | Some s \<Rightarrow> title s) (pageLabel @ showNat (i + 1)),
        slide_notes = orElse (case aiSlide of None \<Rightarrow> [] | Some s \<Rightarrow> slide_notes s) notesPlaceholder,
        imageUrl = imageAt images i,
        audioBuffer = None \<rparr>)"

definition startAnalysis0 :: "nat \<Rightarrow> string list \<Rightarrow> Slide list \<Rightarrow> Slide list" where
  "startAnalysis0 numPages images ai = map (syncSlide0 ai images) [0..<numPages]"

text \<open>
  The PDF and PowerPoint application (src/unnamed/part\_001, lines 169 to 172):
  \<open>result.slides.map((s, i) => ({ ...s, imageUrl: images[i] || undefined }))\<close>.
\<close>

definition attachImage :: "string list \<Rightarrow> Slide \<Rightarrow> nat \<Rightarrow> Slide" where
  "attachImage images s i =
     s\<lparr> imageUrl := (case imageAt images i of None \<Rightarrow> None
                     | Some u \<Rightarrow> if u = [] then None else Some u) \<rparr>"

definition startAnalysis1 :: "string list \<Rightarrow> Slide list \<Rightarrow> Slide list" where
  "startAnalysis1 images ai = map (\<lambda>(s, i). attachImage images s i) (zip ai [0..<length ai])"

section \<open>The PowerPoint extractor (services/pptxParser.ts)\<close>

datatype js_error = TypeError | RangeError | NotSupportedError






















section \<open>Audio decoding (services/geminiService.ts)\<close>

text \<open>
  \<open>new Int16Array(data.buffer)\<close>: the bytes two by two, low byte first (the byte order of
  the platforms browsers run on).
\<close>

fun toInt16Array :: "8 word list \<Rightarrow> 16 word list" where
  "toInt16Array (lo # hi # rest) = (word_cat hi lo :: 16 word) # toInt16Array rest"
| "toInt16Array _ = []"

text \<open>
  \<open>decodeAudioData\<close>. The typed-array constructor raises RangeError on an odd number of
  bytes; \<open>createBuffer\<close> raises NotSupportedError for no channel and for no frame, and
  takes the integer part of \<open>frameCount\<close>. Both versions of the service have the same text.
\<close>

definition decodeAudioData :: "8 word list \<Rightarrow> nat \<Rightarrow> nat \<Rightarrow> js_error + AudioBuffer" where
  "decodeAudioData data rate numChannels =
     (if odd (length data) then Inl RangeError
      else
        (let dataInt16 = toInt16Array data;
             frames = length dataInt16 div numChannels
         in if numChannels = 0 \<or> frames = 0 then Inl NotSupportedError
            else Inr \<lparr> sampleRate = rate,
                       numberOfChannels = numChannels,
                       frameCount = frames,
                       channelData =
                         map (\<lambda>channel.
                                map (\<lambda>i. of_int (sint (dataInt16 ! (i * numChannels + channel))) / 32768)
                                    [0..<frames])
                             [0..<numChannels] \<rparr>))"

text \<open>The call in \<open>generateSpeechForText\<close>: \<open>decodeAudioData(audioBytes, audioCtx, 24000, 1)\<close>.\<close>

definition decodeSpeech :: "8 word list \<Rightarrow> js_error + AudioBuffer" where
  "decodeSpeech audioBytes = decodeAudioData audioBytes 24000 1"

section \<open>Calls to the AI backend (services/geminiService.ts)\<close>










subsection \<open>The first version (src/unnamed/part\_002, lines 13 to 43)\<close>






subsection \<open>The second version (src/unnamed/part\_002, lines 204 to 246)\<close>







section \<open>The usage quota (App.tsx)\<close>

text \<open>
  The entry \<open>pdf_video_quota\<close> of the local storage, \<open>{ date, count }\<close>; the fields are
  \<open>quota_date\<close> and \<open>quota_count\<close> here.
\<close>

record quota_entry =
  quota_date :: string
  quota_count :: int

datatype ctx_state = NotCreated | Running | Closed

text \<open>
  Modelled from the spec: the declaration of \<open>AppState\<close> (types.ts) is not among the
  sources; the constructors are the values of \<open>status\<close> that the code sets, the last with
  the error message.
\<close>

datatype app_status =
  Idle | Rendering | Analyzing | Reviewing | AudioGenerating | VideoRecording | Completed
  | ErrorStatus string

text \<open>What the recording does, with the value of \<open>Date.now()\<close> at that moment.\<close>

datatype event =
  DrawFrame nat int
  | RecorderStart int
  | RecorderStop int
  | SourceStart nat int

text \<open>
  The state of the component that \<open>createVideo\<close> touches: the storage entry, the
  \<open>remainingQuota\<close> and \<open>appState.status\<close> state variables, whether \<open>videoUrl\<close> is set,
  the audio context, and the calls that the current run of \<open>createVideo\<close> has made on the
  canvas, the recorder and the audio sources.
\<close>

record app =
  storage :: "quota_entry option"
  remainingQuota :: int
  appStatus :: app_status
  hasVideoUrl :: bool
  audioCtx :: ctx_state
  timeline :: "event list"

definition checkQuota :: "int \<Rightarrow> string \<Rightarrow> app \<Rightarrow> app" where
  "checkQuota dailyLimit today a =
     (case storage a of
        Some q \<Rightarrow>
          if quota_date q = today then a\<lparr> remainingQuota := max 0 (dailyLimit - quota_count q) \<rparr>
          else a\<lparr> storage := Some \<lparr> quota_date = today, quota_count = 0 \<rparr>,
                  remainingQuota := dailyLimit \<rparr>
      | None \<Rightarrow> a\<lparr> storage := Some \<lparr> quota_date = today, quota_count = 0 \<rparr>,
                   remainingQuota := dailyLimit \<rparr>)"

definition useQuota :: "int \<Rightarrow> string \<Rightarrow> app \<Rightarrow> app" where
  "useQuota dailyLimit today a =
     (case storage a of
        Some q \<Rightarrow> a\<lparr> storage := Some \<lparr> quota_date = today, quota_count = quota_count q + 1 \<rparr>,
                     remainingQuota := dailyLimit - (quota_count q + 1) \<rparr>
      | None \<Rightarrow> a)"

section \<open>Video composition: \<open>createVideo\<close> (App.tsx)\<close>

text \<open>
  What \<open>createVideo\<close> reads from outside the program: the result of
  \<open>generateSpeechForText\<close> for slide \<open>i\<close> and its notes (an error message or the decoded
  buffer), whether the image of slide \<open>i\<close> loads, the error, if any, that the
  \<open>MediaRecorder\<close> constructor, \<open>recorder.start()\<close> and \<open>recorder.stop()\<close> raise, the
  value of \<open>Date.now()\<close> when the recording phase begins, and for each \<open>await\<close> of that
  phase, in order, by how many milliseconds the continuation runs late. An \<open>await\<close> for which
  the list holds no number never resumes: the run is \<open>None\<close>. \<open>today\<close> is the date that
  \<open>useQuota\<close> reads. The construction of the audio context, which comes before the
  \<open>try\<close> block, is taken to succeed.
\<close>

record env =
  speech :: "nat \<Rightarrow> string \<Rightarrow> string + AudioBuffer"
  imageLoaded :: "nat \<Rightarrow> bool"
  recorderCtorError :: "string option"
  recorderStartError :: "string option"
  recorderStopError :: "string option"
  recordingStart :: int
  latencies :: "nat list"
  today :: string

text \<open>
  \<open>audioBuffer.duration * 1000\<close>: the frames over the sample rate, in milliseconds. The
  program computes it and the deadline in double precision; the model computes them exactly.
\<close>

definition durationMs :: "AudioBuffer \<Rightarrow> rat" where
  "durationMs b = of_nat (frameCount b) / of_nat (sampleRate b) * 1000"

text \<open>The catch block: \<open>setAppState({ status: 'error', progress: 0, error: error.message })\<close>.\<close>

definition failWith :: "string \<Rightarrow> app \<Rightarrow> app" where
  "failWith msg a = a\<lparr> appStatus := ErrorStatus msg \<rparr>"

subsection \<open>The PDF-only application (src/unnamed/part\_000, lines 117 to 222)\<close>

text \<open>
  The preloading loop: the speech of each slide, then its image. The rejection of a failed
  image load carries no message.
\<close>

fun materialize0 :: "env \<Rightarrow> nat \<Rightarrow> Slide list \<Rightarrow> string + AudioBuffer list" where
  "materialize0 e i [] = Inr []"
| "materialize0 e i (s # ss) =
     (case speech e i (slide_notes s) of
        Inl msg \<Rightarrow> Inl msg
      | Inr b \<Rightarrow>
          if \<not> imageLoaded e i then Inl []
          else (case materialize0 e (i + 1) ss of
                  Inl msg \<Rightarrow> Inl msg
                | Inr bs \<Rightarrow> Inr (b # bs)))"

text \<open>
  The inner loop for slide \<open>i\<close>, entered at time \<open>now\<close>: \<open>window\<close> is
  \<open>duration * 1000 + 600\<close> and the deadline \<open>endTime\<close> is \<open>startTime + window\<close>. An iteration
  draws, then awaits an animation frame and a 100 ms timer. The result is the time at the
  exit, the latencies left and the events.
\<close>

fun frameLoop0 ::
  "nat \<Rightarrow> rat \<Rightarrow> int \<Rightarrow> int \<Rightarrow> nat list \<Rightarrow> (int \<times> nat list \<times> event list) option" where
  "frameLoop0 i window startTime now lats =
     (if of_int now < of_int startTime + window then
        (case lats of
           raf # tmo # rest \<Rightarrow>
             (let now' = now + int raf + 100 + int tmo
              in if of_int (now' - startTime) > window then Some (now', rest, [DrawFrame i now])
                 else (case frameLoop0 i window startTime now' rest of
                         None \<Rightarrow> None
                       | Some (t, ls, evs) \<Rightarrow> Some (t, ls, DrawFrame i now # evs)))
         | _ \<Rightarrow> None)
      else Some (now, lats, []))"

text \<open>The loop over the slides, from slide \<open>i\<close> on, over the buffers of the slides left.\<close>

fun playSlides0 ::
  "AudioBuffer list \<Rightarrow> nat \<Rightarrow> int \<Rightarrow> nat list \<Rightarrow> (int \<times> nat list \<times> event list) option" where
  "playSlides0 [] i now lats = Some (now, lats, [])"
| "playSlides0 (b # bs) i now lats =
     (case frameLoop0 i (durationMs b + 600) now now lats of
        None \<Rightarrow> None
      | Some (t, ls, evs) \<Rightarrow>
          (case playSlides0 bs (i + 1) t ls of
             None \<Rightarrow> None
           | Some (t', ls', evs') \<Rightarrow> Some (t', ls', SourceStart i now # evs @ evs')))"

text \<open>
  \<open>drawFrame(preloadedImages[0])\<close> without a slide reads \<open>width\<close> of \<open>undefined\<close>: a
  TypeError, whose message depends on the engine.
\<close>

definition typeErrorMessage :: string where
  "typeErrorMessage = ''TypeError''"

definition createVideo0 :: "env \<Rightarrow> Slide list option \<Rightarrow> app \<Rightarrow> app option" where
  "createVideo0 e analysis a =
     (case analysis of
        None \<Rightarrow> Some a
      | Some slides \<Rightarrow>
          (let a1 = a\<lparr> audioCtx := Running, appStatus := AudioGenerating, timeline := [] \<rparr>
           in case materialize0 e 0 slides of
                Inl msg \<Rightarrow> Some (failWith msg a1)
              | Inr buffers \<Rightarrow>
                  (case recorderCtorError e of
                     Some msg \<Rightarrow> Some (failWith msg a1)
                   | None \<Rightarrow>
                       if buffers = [] then Some (failWith typeErrorMessage a1)
                       else
                         (let t0 = recordingStart e;
                              a2 = a1\<lparr> appStatus := VideoRecording,
                                       timeline := timeline a1 @ [DrawFrame 0 t0] \<rparr>
                          in case recorderStartError e of
                               Some msg \<Rightarrow> Some (failWith msg a2)
                             | None \<Rightarrow>
                                 (case latencies e of
                                    [] \<Rightarrow> None
                                  | l # lats \<Rightarrow>
                                      (let t1 = t0 + 400 + int l
                                       in case playSlides0 buffers 0 t1 lats of
                                            None \<Rightarrow> None
                                          | Some (t2, lats2, evs) \<Rightarrow>
                                              (case lats2 of
                                                 [] \<Rightarrow> None
                                               | l2 # lats3 \<Rightarrow>
                                                   (let t3 = t2 + 500 + int l2;
                                                        a3 = a2\<lparr> timeline := timeline a2
                                                               @ [RecorderStart t0, DrawFrame 0 t1] @ evs \<rparr>
                                                    in case recorderStopError e of
                                                         Some msg \<Rightarrow> Some (failWith msg a3)
                                                       | None \<Rightarrow>
                                                           (case lats3 of
                                                              [] \<Rightarrow> None
                                                            | l3 # lats4 \<Rightarrow>
                                                                Some ((useQuota 3 (today e) a3)
                                                                  \<lparr> timeline := timeline a3 @ [RecorderStop t3],
                                                                    hasVideoUrl := True,
                                                                    appStatus := Completed,
                                                                    audioCtx := Closed \<rparr>))))))))))"

subsection \<open>The PDF and PowerPoint application (src/unnamed/part\_001, lines 182 to 254)\<close>

fun materialize1 :: "env \<Rightarrow> nat \<Rightarrow> Slide list \<Rightarrow> string + AudioBuffer list" where
  "materialize1 e i [] = Inr []"
| "materialize1 e i (s # ss) =
     (case speech e i (slide_notes s) of
        Inl msg \<Rightarrow> Inl msg
      | Inr b \<Rightarrow>
          (case materialize1 e (i + 1) ss of
             Inl msg \<Rightarrow> Inl msg
           | Inr bs \<Rightarrow> Inr (b # bs)))"

text \<open>
  The inner loop for slide \<open>i\<close>: the deadline is \<open>endTime\<close>, and an iteration draws and
  awaits an animation frame.
\<close>

fun frameLoop1 ::
  "nat \<Rightarrow> rat \<Rightarrow> int \<Rightarrow> nat list \<Rightarrow> (int \<times> nat list \<times> event list) option" where
  "frameLoop1 i endTime now lats =
     (if of_int now < endTime then
        (case lats of
           raf # rest \<Rightarrow>
             (case frameLoop1 i endTime (now + int raf) rest of
                None \<Rightarrow> None
              | Some (t, ls, evs) \<Rightarrow> Some (t, ls, DrawFrame i now # evs))
         | [] \<Rightarrow> None)
      else Some (now, lats, []))"

fun playSlides1 ::
  "AudioBuffer list \<Rightarrow> nat \<Rightarrow> int \<Rightarrow> nat list \<Rightarrow> (int \<times> nat list \<times> event list) option" where
  "playSlides1 [] i now lats = Some (now, lats, [])"
| "playSlides1 (b # bs) i now lats =
     (case frameLoop1 i (of_int now + durationMs b + 300) now lats of
        None \<Rightarrow> None
      | Some (t, ls, evs) \<Rightarrow>
          (case playSlides1 bs (i + 1) t ls of
             None \<Rightarrow> None
           | Some (t', ls', evs') \<Rightarrow> Some (t', ls', SourceStart i now # evs @ evs')))"

definition createVideo1 :: "env \<Rightarrow> Slide list option \<Rightarrow> app \<Rightarrow> app option" where
  "createVideo1 e analysis a =
     (case analysis of
        None \<Rightarrow> Some a
      | Some slides \<Rightarrow>
          (let a1 = a\<lparr> audioCtx := Running, appStatus := AudioGenerating, timeline := [] \<rparr>
           in case materialize1 e 0 slides of
                Inl msg \<Rightarrow> Some (failWith msg a1)
              | Inr buffers \<Rightarrow>
                  (case recorderCtorError e of
                     Some msg \<Rightarrow> Some (failWith msg a1)
                   | None \<Rightarrow>
                       (let a2 = a1\<lparr> appStatus := VideoRecording \<rparr>
                        in case recorderStartError e of
                             Some msg \<Rightarrow> Some (failWith msg a2)
                           | None \<Rightarrow>
                               (let t0 = recordingStart e
                                in case playSlides1 buffers 0 t0 (latencies e) of
                                     None \<Rightarrow> None
                                   | Some (t2, lats2, evs) \<Rightarrow>
                                       (let a3 = a2\<lparr> timeline := timeline a2 @ [RecorderStart t0] @ evs \<rparr>
                                        in case recorderStopError e of
                                             Some msg \<Rightarrow> Some (failWith msg a3)
                                           | None \<Rightarrow>
                                               (case lats2 of
                                                  [] \<Rightarrow> None
                                                | l3 # lats3 \<Rightarrow>
                                                    Some ((useQuota 5 (today e) a3)
                                                      \<lparr> timeline := timeline a3 @ [RecorderStop t2],
                                                        hasVideoUrl := True,
                                                        appStatus := Completed,
                                                        audioCtx := Closed \<rparr>))))))))"

subsection \<open>The loop over the slides, for both applications\<close>


section \<open>An example run\<close>

text \<open>
  Two slides whose speech is one millisecond of audio each, a storage entry of the day
  before with one video counted, and an environment in which every call succeeds: the
  recording phase begins at time 1000, and the awaits run late by the numbers of
  \<open>latencies\<close>. \<open>failingEnv\<close> is the same environment with a speech synthesis that fails.
\<close>

definition exampleBuffer :: AudioBuffer where
  "exampleBuffer =
     \<lparr> sampleRate = 24000, numberOfChannels = 1, frameCount = 24, channelData = [replicate 24 0] \<rparr>"

definition exampleSlides :: "Slide list" where
  "exampleSlides =
     [\<lparr> pageIndex = 0, title = ''One'', slide_notes = ''first'', imageUrl = Some ''image0'',
        audioBuffer = None \<rparr>,
      \<lparr> pageIndex = 1, title = ''Two'', slide_notes = ''second'', imageUrl = Some ''image1'',
        audioBuffer = None \<rparr>]"

definition exampleApp :: app where
  "exampleApp =
     \<lparr> storage = Some \<lparr> quota_date = ''2024-05-01'', quota_count = 1 \<rparr>,
       remainingQuota = 2, appStatus = Reviewing, hasVideoUrl = False, audioCtx = NotCreated,
       timeline = [] \<rparr>"

definition exampleEnv :: env where
  "exampleEnv =
     \<lparr> speech = (\<lambda>i text. Inr exampleBuffer), imageLoaded = (\<lambda>i. True),
       recorderCtorError = None, recorderStartError = None, recorderStopError = None,
       recordingStart = 1000, latencies = [0, 16, 600, 16, 600, 0, 0], today = ''2024-05-02'' \<rparr>"

definition failingEnv :: env where
  "failingEnv = exampleEnv\<lparr> speech := (\<lambda>i text. Inl ''synthesis failed'') \<rparr>"

text \<open>The states in which the two applications leave \<open>exampleApp\<close> in \<open>exampleEnv\<close>.\<close>

definition exampleResult0 :: app where
  "exampleResult0 =
     \<lparr> storage = Some \<lparr> quota_date = ''2024-05-02'', quota_count = 2 \<rparr>,
       remainingQuota = 1, appStatus = Completed, hasVideoUrl = True, audioCtx = Closed,
       timeline = [DrawFrame 0 1000, RecorderStart 1000, DrawFrame 0 1400,
                   SourceStart 0 1400, DrawFrame 0 1400,
                   SourceStart 1 2116, DrawFrame 1 2116, RecorderStop 3332] \<rparr>"

definition exampleResult1 :: app where
  "exampleResult1 =
     \<lparr> storage = Some \<lparr> quota_date = ''2024-05-02'', quota_count = 2 \<rparr>,
       remainingQuota = 3, appStatus = Completed, hasVideoUrl = True, audioCtx = Closed,
       timeline = [RecorderStart 1000, SourceStart 0 1000, DrawFrame 0 1000,
                   DrawFrame 0 1000, DrawFrame 0 1016,
                   SourceStart 1 1616, DrawFrame 1 1616, DrawFrame 1 1632,
                   RecorderStop 2232] \<rparr>"

section \<open>Properties of the synchronisation\<close>

lemma showNat_nonempty: "showNat n \<noteq> []"
  by (subst showNat.simps) simp

lemma orElse_nonempty: "b \<noteq> [] \<Longrightarrow> orElse a b \<noteq> []"
  by (simp add: orElse_def)

lemma startAnalysis0_length: "length (startAnalysis0 n images ai) = n"
  by (simp add: startAnalysis0_def)

lemma startAnalysis0_pageIndex:
  "map pageIndex (startAnalysis0 n images ai) = map int [0..<n]"
  by (simp add: startAnalysis0_def syncSlide0_def Let_def comp_def)

lemma find_filter_inrange:
  assumes "i < n"
  shows "find (\<lambda>s. pageIndex s = int i) (filter (\<lambda>s. 0 \<le> pageIndex s \<and> pageIndex s < int n) ai)
       = find (\<lambda>s. pageIndex s = int i) ai"
  using assms by (induction ai) auto

lemma startAnalysis0_drops_out_of_range:
  "startAnalysis0 n images (filter (\<lambda>s. 0 \<le> pageIndex s \<and> pageIndex s < int n) ai)
     = startAnalysis0 n images ai"
  by (simp add: startAnalysis0_def syncSlide0_def find_filter_inrange)

lemma startAnalysis0_placeholders:
  assumes "s \<in> set (startAnalysis0 n images ai)"
  shows "title s \<noteq> [] \<and> slide_notes s \<noteq> []"
proof -
  from assms obtain i where s: "s = syncSlide0 ai images i"
    by (auto simp: startAnalysis0_def)
  have "notesPlaceholder \<noteq> []"
    by (simp add: notesPlaceholder_def)
  then have "slide_notes s \<noteq> []"
    unfolding s syncSlide0_def Let_def by (simp add: orElse_nonempty)
  moreover have "pageLabel @ showNat (i + 1) \<noteq> []"
    by (simp add: pageLabel_def)
  then have "title s \<noteq> []"
    unfolding s syncSlide0_def Let_def by (simp add: orElse_nonempty)
  ultimately show ?thesis by simp
qed

section \<open>Properties of the audio decoding\<close>

lemma toInt16Array_length: "length (toInt16Array data) = length data div 2"
  by (induction data rule: toInt16Array.induct) auto

lemma sample_range:
  "- 1 \<le> (of_int (sint (w :: 16 word)) / 32768 :: rat) \<and> (of_int (sint w) / 32768 :: rat) \<le> 1"
proof -
  have lo: "- 32768 \<le> sint w"
    using sint_ge [of w] by simp
  have hi: "sint w < 32768"
    using sint_lt [of w] by simp
  have "(- 32768 :: rat) \<le> of_int (sint w)"
    using lo by (metis of_int_le_iff of_int_minus of_int_numeral)
  moreover have "(of_int (sint w) :: rat) \<le> 32768"
    using hi by (metis less_imp_le of_int_le_iff of_int_numeral)
  ultimately show ?thesis
    by (simp add: field_simps)
qed

text \<open>
  C9. Whenever the decoding of a speech payload returns a buffer, the buffer is at 24 kHz with
  one channel, its samples are the 16-bit signed integers of the payload, each divided by
  32768, and every sample lies between -1 and 1.
\<close>

theorem decodeSpeech_pcm16:
  assumes "decodeSpeech data = Inr b"
  shows "sampleRate b = 24000 \<and> numberOfChannels b = 1
       \<and> channelData b = [map (\<lambda>w. of_int (sint w) / 32768) (toInt16Array data)]
       \<and> (\<forall>x \<in> set (concat (channelData b)). - 1 \<le> x \<and> x \<le> 1)"
proof -
  from assms have b: "b = \<lparr> sampleRate = 24000, numberOfChannels = 1,
      frameCount = length (toInt16Array data),
      channelData = [map (\<lambda>i. of_int (sint (toInt16Array data ! i)) / 32768)
                         [0..<length (toInt16Array data)]] \<rparr>"
    by (simp add: decodeSpeech_def decodeAudioData_def Let_def split: if_splits)
  have m: "map (\<lambda>i. of_int (sint (toInt16Array data ! i)) / 32768) [0..<length (toInt16Array data)]
         = map (\<lambda>w. of_int (sint w) / (32768 :: rat)) (toInt16Array data)"
    by (rule nth_equalityI) simp_all
  show ?thesis
    unfolding b using m sample_range by auto
qed

theorem decodeSpeech_pcm16_witness:
  "decodeSpeech [0x00, 0x80, 0xFF, 0x7F]
     = Inr \<lparr> sampleRate = 24000, numberOfChannels = 1, frameCount = 2,
             channelData = [[- 1, 32767 / 32768]] \<rparr>
   \<and> list_all (\<lambda>x. - 1 \<le> x \<and> x \<le> 1) [- 1, 32767 / 32768 :: rat]"
proof -
  have h: "decodeSpeech [0x00, 0x80, 0xFF, 0x7F]
     = Inr \<lparr> sampleRate = 24000, numberOfChannels = 1, frameCount = 2,
             channelData = [[- 1, 32767 / 32768]] \<rparr>"
    by (simp add: decodeSpeech_def decodeAudioData_def Let_def word_cat_eq)
  from decodeSpeech_pcm16 [OF h] show ?thesis
    using h by simp
qed

section \<open>Properties of the PowerPoint extractor\<close>







section \<open>The synchronisation of the PDF and PowerPoint application\<close>

text \<open>
  C1. With two extracted pages and a response whose only narration record has page index 7,
  \<open>startAnalysis\<close> of the PDF and PowerPoint application returns one slide, with page
  index 7: the list has not the length of the page sequence, and the record out of range is in
  it. (The PDF-only application returns two slides with the indices 0 and 1, by
  \<open>startAnalysis0_length\<close>, \<open>startAnalysis0_pageIndex\<close> and
  \<open>startAnalysis0_drops_out_of_range\<close>.)
\<close>

theorem startAnalysis1_out_of_range:
  "startAnalysis1 [''page0'', ''page1'']
     [\<lparr> pageIndex = 7, title = ''Seven'', slide_notes = ''text'', imageUrl = None,
        audioBuffer = None \<rparr>]
   = [\<lparr> pageIndex = 7, title = ''Seven'', slide_notes = ''text'', imageUrl = Some ''page0'',
        audioBuffer = None \<rparr>]"
  by (simp add: startAnalysis1_def attachImage_def imageAt_def)

text \<open>
  C2. With two extracted pages and a response that has a record with empty notes for page 0
  and no record for page 1, \<open>startAnalysis\<close> of the PDF and PowerPoint application returns
  one slide, with empty notes: page 1 gets no placeholder slide. (In the PDF-only application
  every slide has a non-empty title and non-empty notes, by \<open>startAnalysis0_placeholders\<close>.)
\<close>

theorem startAnalysis1_no_placeholder:
  "startAnalysis1 [''page0'', ''page1'']
     [\<lparr> pageIndex = 0, title = ''Intro'', slide_notes = [], imageUrl = None,
        audioBuffer = None \<rparr>]
   = [\<lparr> pageIndex = 0, title = ''Intro'', slide_notes = [], imageUrl = Some ''page0'',
        audioBuffer = None \<rparr>]"
  by (simp add: startAnalysis1_def attachImage_def imageAt_def)

section \<open>Properties of the calls to the AI backend\<close>








section \<open>Properties of the video composition\<close>

lemma checkQuota_storage: "storage (checkQuota dailyLimit day a) \<noteq> None"
  by (simp add: checkQuota_def split: option.splits)

declare frameLoop0.simps [simp del] frameLoop1.simps [simp del]


lemma frameLoop0_spec:
  assumes "frameLoop0 i w st now lats = Some (t, ls, evs)"
  shows "now \<le> t \<and> of_int st + w \<le> of_int t
       \<and> (\<forall>e \<in> set evs. \<exists>u. e = DrawFrame i u \<and> now \<le> u \<and> u \<le> t \<and> of_int u < of_int st + w)
       \<and> (of_int now < of_int st + w \<longrightarrow> DrawFrame i now \<in> set evs)"
  using assms
proof (induction i w st now lats arbitrary: t ls evs rule: frameLoop0.induct)
  case (1 i w st now lats)
  show ?case
  proof (cases "of_int now < of_int st + w")
    case False
    with "1.prems" show ?thesis
      by (subst (asm) frameLoop0.simps) simp
  next
    case True
    with "1.prems" obtain raf tmo rest where lats: "lats = raf # tmo # rest"
      by (subst (asm) frameLoop0.simps) (auto split: list.splits)
    define now' where "now' = now + int raf + 100 + int tmo"
    show ?thesis
    proof (cases "of_int (now' - st) > w")
      case brk: True
      with "1.prems" True lats have "t = now'" "evs = [DrawFrame i now]"
        by (subst (asm) frameLoop0.simps, simp add: now'_def Let_def)+
      then show ?thesis
        using True brk by (simp add: now'_def)
    next
      case cont: False
      with "1.prems" True lats obtain evs' where
        rec: "frameLoop0 i w st now' rest = Some (t, ls, evs')" and evs: "evs = DrawFrame i now # evs'"
        by (subst (asm) frameLoop0.simps) (auto simp: now'_def Let_def split: option.splits)
      have ih: "now' \<le> t \<and> of_int st + w \<le> of_int t
       \<and> (\<forall>e \<in> set evs'. \<exists>u. e = DrawFrame i u \<and> now' \<le> u \<and> u \<le> t \<and> of_int u < of_int st + w)"
        using "1.IH" [OF True lats refl now'_def cont rec] by blast
      have "now \<le> now'"
        by (simp add: now'_def)
      then show ?thesis
        using ih True evs by auto
    qed
  qed
qed






lemma createVideo0_outcome:
  assumes "createVideo0 e (Some slides) a = Some a'"
  shows "((\<exists>msg. appStatus a' = ErrorStatus msg) \<and> storage a' = storage a
            \<and> remainingQuota a' = remainingQuota a \<and> audioCtx a' = Running
            \<and> (timeline a' = [] \<or> timeline a' = [DrawFrame 0 (recordingStart e)]
                \<or> (\<exists>bs l lats t2 lats2 evs. materialize0 e 0 slides = Inr bs
                      \<and> latencies e = l # lats
                      \<and> playSlides0 bs 0 (recordingStart e + 400 + int l) lats = Some (t2, lats2, evs)
                      \<and> timeline a' = [DrawFrame 0 (recordingStart e), RecorderStart (recordingStart e),
                            DrawFrame 0 (recordingStart e + 400 + int l)] @ evs)))
       \<or> (appStatus a' = Completed \<and> audioCtx a' = Closed \<and> hasVideoUrl a'
            \<and> storage a' = storage (useQuota 3 (today e) a)
            \<and> remainingQuota a' = remainingQuota (useQuota 3 (today e) a)
            \<and> (\<exists>bs l lats t2 l2 lats3 evs. materialize0 e 0 slides = Inr bs
                      \<and> latencies e = l # lats
                      \<and> playSlides0 bs 0 (recordingStart e + 400 + int l) lats = Some (t2, l2 # lats3, evs)
                      \<and> timeline a' = [DrawFrame 0 (recordingStart e), RecorderStart (recordingStart e),
                            DrawFrame 0 (recordingStart e + 400 + int l)] @ evs
                            @ [RecorderStop (t2 + 500 + int l2)]))"
  using assms unfolding createVideo0_def Let_def
  by (auto simp: failWith_def useQuota_def
      split: sum.splits option.splits list.splits if_splits prod.splits)

lemma createVideo1_outcome:
  assumes "createVideo1 e (Some slides) a = Some a'"
  shows "((\<exists>msg. appStatus a' = ErrorStatus msg) \<and> storage a' = storage a
            \<and> remainingQuota a' = remainingQuota a \<and> audioCtx a' = Running
            \<and> (timeline a' = []
                \<or> (\<exists>bs t2 lats2 evs. materialize1 e 0 slides = Inr bs
                      \<and> playSlides1 bs 0 (recordingStart e) (latencies e) = Some (t2, lats2, evs)
                      \<and> timeline a' = RecorderStart (recordingStart e) # evs)))
       \<or> (appStatus a' = Completed \<and> audioCtx a' = Closed \<and> hasVideoUrl a'
            \<and> storage a' = storage (useQuota 5 (today e) a)
            \<and> remainingQuota a' = remainingQuota (useQuota 5 (today e) a)
            \<and> (\<exists>bs t2 lats2 evs. materialize1 e 0 slides = Inr bs
                      \<and> playSlides1 bs 0 (recordingStart e) (latencies e) = Some (t2, lats2, evs)
                      \<and> timeline a' = RecorderStart (recordingStart e) # evs @ [RecorderStop t2]))"
  using assms unfolding createVideo1_def Let_def
  by (auto simp: failWith_def useQuota_def
      split: sum.splits option.splits list.splits if_splits prod.splits)





lemma exampleBuffer_ms: "durationMs exampleBuffer = 1"
  by (simp add: durationMs_def exampleBuffer_def)

lemma example_run0:
  "createVideo0 exampleEnv (Some exampleSlides) exampleApp
     = Some \<lparr> storage = Some \<lparr> quota_date = ''2024-05-02'', quota_count = 2 \<rparr>,
              remainingQuota = 1, appStatus = Completed, hasVideoUrl = True, audioCtx = Closed,
              timeline = [DrawFrame 0 1000, RecorderStart 1000, DrawFrame 0 1400,
                          SourceStart 0 1400, DrawFrame 0 1400,
                          SourceStart 1 2116, DrawFrame 1 2116, RecorderStop 3332] \<rparr>"
  by (simp add: createVideo0_def exampleEnv_def exampleSlides_def exampleApp_def Let_def
        exampleBuffer_ms frameLoop0.simps useQuota_def)

lemma example_run1:
  "createVideo1 exampleEnv (Some exampleSlides) exampleApp
     = Some \<lparr> storage = Some \<lparr> quota_date = ''2024-05-02'', quota_count = 2 \<rparr>,
              remainingQuota = 3, appStatus = Completed, hasVideoUrl = True, audioCtx = Closed,
              timeline = [RecorderStart 1000, SourceStart 0 1000, DrawFrame 0 1000,
                          DrawFrame 0 1000, DrawFrame 0 1016,
                          SourceStart 1 1616, DrawFrame 1 1616, DrawFrame 1 1632,
                          RecorderStop 2232] \<rparr>"
  by (simp add: createVideo1_def exampleEnv_def exampleSlides_def exampleApp_def Let_def
        exampleBuffer_ms frameLoop1.simps useQuota_def)


lemma failing_run:
  "createVideo0 failingEnv (Some exampleSlides) exampleApp
     = Some (exampleApp\<lparr> audioCtx := Running, appStatus := ErrorStatus ''synthesis failed'' \<rparr>)"
  "createVideo1 failingEnv (Some exampleSlides) exampleApp
     = Some (exampleApp\<lparr> audioCtx := Running, appStatus := ErrorStatus ''synthesis failed'' \<rparr>)"
  by (simp_all add: createVideo0_def createVideo1_def failingEnv_def exampleEnv_def exampleSlides_def
        exampleApp_def Let_def failWith_def)


lemma example_result0:
  "createVideo0 exampleEnv (Some exampleSlides) exampleApp = Some exampleResult0"
  by (simp add: example_run0 exampleResult0_def)

lemma example_result1:
  "createVideo1 exampleEnv (Some exampleSlides) exampleApp = Some exampleResult1"
  by (simp add: example_run1 exampleResult1_def)


text \<open>
  C4. With an entry in the storage, a run of \<open>createVideo\<close> of either application that
  returns either completes, and then the count of the entry is one more than before, the
  recorder was stopped and the date is the day of the run, or ends in the error state, and
  then the entry and the remaining quota are as before. Without an analysis nothing happens.
  (\<open>checkQuota\<close>, which the component runs when it is mounted, leaves an entry in the
  storage: \<open>checkQuota_storage\<close>.)
\<close>

theorem createVideo_quota:
  assumes "storage a = Some q"
  shows "(createVideo0 e (Some slides) a = Some a' \<longrightarrow>
            (if appStatus a' = Completed
             then storage a' = Some \<lparr> quota_date = today e, quota_count = quota_count q + 1 \<rparr>
                  \<and> remainingQuota a' = 3 - (quota_count q + 1)
                  \<and> (\<exists>t. last (timeline a') = RecorderStop t)
             else storage a' = Some q \<and> remainingQuota a' = remainingQuota a
                  \<and> (\<exists>msg. appStatus a' = ErrorStatus msg)))
       \<and> (createVideo1 e (Some slides) a = Some a' \<longrightarrow>
            (if appStatus a' = Completed
             then storage a' = Some \<lparr> quota_date = today e, quota_count = quota_count q + 1 \<rparr>
                  \<and> remainingQuota a' = 5 - (quota_count q + 1)
                  \<and> (\<exists>t. last (timeline a') = RecorderStop t)
             else storage a' = Some q \<and> remainingQuota a' = remainingQuota a
                  \<and> (\<exists>msg. appStatus a' = ErrorStatus msg)))
       \<and> createVideo0 e None a = Some a \<and> createVideo1 e None a = Some a"
proof -
  have u: "storage (useQuota limit (today e) a)
             = Some \<lparr> quota_date = today e, quota_count = quota_count q + 1 \<rparr>
         \<and> remainingQuota (useQuota limit (today e) a) = limit - (quota_count q + 1)" for limit
    using assms by (simp add: useQuota_def)
  have p0: "if appStatus a' = Completed
             then storage a' = Some \<lparr> quota_date = today e, quota_count = quota_count q + 1 \<rparr>
                  \<and> remainingQuota a' = 3 - (quota_count q + 1)
                  \<and> (\<exists>t. last (timeline a') = RecorderStop t)
             else storage a' = Some q \<and> remainingQuota a' = remainingQuota a
                  \<and> (\<exists>msg. appStatus a' = ErrorStatus msg)"
    if "createVideo0 e (Some slides) a = Some a'"
    using createVideo0_outcome [OF that] u [of 3] assms by (auto simp del: One_nat_def)
  have p1: "if appStatus a' = Completed
             then storage a' = Some \<lparr> quota_date = today e, quota_count = quota_count q + 1 \<rparr>
                  \<and> remainingQuota a' = 5 - (quota_count q + 1)
                  \<and> (\<exists>t. last (timeline a') = RecorderStop t)
             else storage a' = Some q \<and> remainingQuota a' = remainingQuota a
                  \<and> (\<exists>msg. appStatus a' = ErrorStatus msg)"
    if "createVideo1 e (Some slides) a = Some a'"
    using createVideo1_outcome [OF that] u [of 5] assms by (auto simp del: One_nat_def)
  show ?thesis
    using p0 p1 by (simp add: createVideo0_def createVideo1_def)
qed

theorem createVideo_quota_witness:
  "createVideo0 exampleEnv (Some exampleSlides) exampleApp = Some exampleResult0
   \<and> appStatus exampleResult0 = Completed
   \<and> storage exampleResult0 = Some \<lparr> quota_date = ''2024-05-02'', quota_count = 1 + 1 \<rparr>
   \<and> createVideo1 failingEnv (Some exampleSlides) exampleApp
       = Some (exampleApp\<lparr> audioCtx := Running, appStatus := ErrorStatus ''synthesis failed'' \<rparr>)
   \<and> storage (exampleApp\<lparr> audioCtx := Running, appStatus := ErrorStatus ''synthesis failed'' \<rparr>)
       = Some \<lparr> quota_date = ''2024-05-01'', quota_count = 1 \<rparr>"
proof -
  have q: "storage exampleApp = Some \<lparr> quota_date = ''2024-05-01'', quota_count = 1 \<rparr>"
    by (simp add: exampleApp_def)
  have c: "appStatus exampleResult0 = Completed"
    by (simp add: exampleResult0_def)
  have t: "today exampleEnv = ''2024-05-02''"
    by (simp add: exampleEnv_def)
  have f: "appStatus (exampleApp\<lparr> audioCtx := Running, appStatus := ErrorStatus ''synthesis failed'' \<rparr>)
             \<noteq> Completed"
    by simp
  have "storage exampleResult0 = Some \<lparr> quota_date = ''2024-05-02'', quota_count = 1 + 1 \<rparr>"
    using createVideo_quota [OF q, of exampleEnv exampleSlides exampleResult0] example_result0 c t
    by simp
  moreover have "storage (exampleApp\<lparr> audioCtx := Running, appStatus := ErrorStatus ''synthesis failed'' \<rparr>)
       = Some \<lparr> quota_date = ''2024-05-01'', quota_count = 1 \<rparr>"
    using createVideo_quota [OF q, of failingEnv exampleSlides _ ] failing_run(2) f
    by simp
  ultimately show ?thesis
    using example_result0 failing_run(2) c by simp
qed

lemma createVideo_context_closed_iff:
  assumes "createVideo0 e (Some slides) a = Some a' \<or> createVideo1 e (Some slides) a = Some a'"
  shows "(appStatus a' = Completed \<and> audioCtx a' = Closed)
       \<or> ((\<exists>msg. appStatus a' = ErrorStatus msg) \<and> audioCtx a' = Running)"
  using assms createVideo0_outcome [of e slides a a'] createVideo1_outcome [of e slides a a']
  by blast

text \<open>
  C8. When the speech synthesis of the first slide fails, \<open>createVideo\<close> of either
  application ends in the error state with the audio context still running: the catch block
  does not close it. (By \<open>createVideo_context_closed_iff\<close> this is so in every run that ends
  in the error state; the context is closed in the runs that complete.)
\<close>

theorem createVideo_context_left_open:
  "createVideo0 failingEnv (Some exampleSlides) exampleApp
     = Some (exampleApp\<lparr> audioCtx := Running, appStatus := ErrorStatus ''synthesis failed'' \<rparr>)
   \<and> createVideo1 failingEnv (Some exampleSlides) exampleApp
     = Some (exampleApp\<lparr> audioCtx := Running, appStatus := ErrorStatus ''synthesis failed'' \<rparr>)
   \<and> audioCtx (exampleApp\<lparr> audioCtx := Running, appStatus := ErrorStatus ''synthesis failed'' \<rparr>)
     = Running"
  using failing_run by simp

lemma playSlides0_no_recorder:
  assumes "playSlides0 bs i now lats = Some (t', ls', evs)"
  shows "RecorderStart t \<notin> set evs"
  using assms
proof (induction bs arbitrary: i now lats t' ls' evs)
  case Nil
  then show ?case by simp
next
  case (Cons b bs)
  from Cons.prems obtain t1 ls1 ev1 ev2 where
    l: "frameLoop0 i (durationMs b + 600) now now lats = Some (t1, ls1, ev1)"
    and r: "playSlides0 bs (i + 1) t1 ls1 = Some (t', ls', ev2)"
    and evs: "evs = SourceStart i now # ev1 @ ev2"
    by (auto split: option.splits)
  have "RecorderStart t \<notin> set ev1"
    using frameLoop0_spec [OF l] by fastforce
  moreover have "RecorderStart t \<notin> set ev2"
    using Cons.IH [OF r] .
  ultimately show ?case
    by (simp add: evs)
qed

lemma createVideo0_first_frame:
  assumes run: "createVideo0 e (Some slides) a = Some a'"
    and rec: "RecorderStart t \<in> set (timeline a')"
  shows "\<exists>l rest. timeline a' = DrawFrame 0 t # RecorderStart t # DrawFrame 0 (t + 400 + int l) # rest"
proof -
  let ?t0 = "recordingStart e"
  from createVideo0_outcome [OF run] rec
  obtain bs l lats t2 lats2 evs rest where
    play: "playSlides0 bs 0 (?t0 + 400 + int l) lats = Some (t2, lats2, evs)"
    and tl: "timeline a' = [DrawFrame 0 ?t0, RecorderStart ?t0, DrawFrame 0 (?t0 + 400 + int l)] @ evs @ rest"
    and rest: "rest = [] \<or> (\<exists>t3. rest = [RecorderStop t3])"
    by fastforce
  have "RecorderStart t \<notin> set evs"
    using play by (rule playSlides0_no_recorder)
  with rec tl rest have "t = ?t0"
    by auto
  then show ?thesis
    using tl by simp
qed

text \<open>
  C3. In the example run of the PDF and PowerPoint application the recorder is started before
  any frame is drawn, and the first frame is drawn once the loop over the slides is entered,
  without a settling delay. (In the PDF-only application a frame of the first slide is drawn
  before the recorder is started and again at least 400 ms later:
  \<open>createVideo0_first_frame\<close>.)
\<close>

theorem createVideo1_starts_before_first_frame:
  "map_option timeline (createVideo1 exampleEnv (Some exampleSlides) exampleApp)
     = Some [RecorderStart 1000, SourceStart 0 1000, DrawFrame 0 1000, DrawFrame 0 1000,
             DrawFrame 0 1016, SourceStart 1 1616, DrawFrame 1 1616, DrawFrame 1 1632,
             RecorderStop 2232]"
  by (simp add: example_result1 exampleResult1_def)

end
